theory Spec2Isabelle
  imports Complex_Main
begin

section \<open>Values\<close>

text \<open>
  The handlers of \<^verbatim>\<open>node/security_fix_patch.py\<close> build Python dictionaries and hand
  them to \<^verbatim>\<open>jsonify\<close>. A dictionary is an association list in insertion order, a
  Python int is an \<open>int\<close>, and a Python float is the real number that is its value (a
  binary64 value is a rational; the sign of a zero is not kept).
\<close>

datatype json =
    JNull
  | JBool bool
  | JInt int
  | JFloat real
  | JStr string
  | JArr "json list"
  | JObj "(string \<times> json) list"

type_synonym pydict = "(string \<times> json) list"

text \<open>\<^verbatim>\<open>d[k] = v\<close>: an existing key keeps its place, a new key goes to the end.\<close>

fun setitem :: "pydict \<Rightarrow> string \<Rightarrow> json \<Rightarrow> pydict" where
  "setitem [] k v = [(k, v)]"
| "setitem ((k', v') # d) k v = (if k' = k then (k, v) # d else (k', v') # setitem d k v)"

text \<open>\<^verbatim>\<open>d.get(k)\<close> on a dictionary built by the handlers.\<close>

definition getitem :: "pydict \<Rightarrow> string \<Rightarrow> json option" where
  "getitem d k = map_of d k"

definition keys :: "pydict \<Rightarrow> string list" where
  "keys d = map fst d"

text \<open>\<^verbatim>\<open>m.get(k, default)\<close> on a mapping.\<close>

definition dict_get :: "('k \<rightharpoonup> 'v) \<Rightarrow> 'k \<Rightarrow> 'v \<Rightarrow> 'v" where
  "dict_get m k d = (case m k of None \<Rightarrow> d | Some v \<Rightarrow> v)"

datatype pyerr = NameError | TypeError | ZeroDivisionError | OverflowError | DatabaseError

section \<open>Strings\<close>

text \<open>
  A \<open>char\<close> is a code point below 256. \<^verbatim>\<open>str.lower\<close> and \<^verbatim>\<open>str.upper\<close> act on the
  ASCII letters and leave every other character as it is. \<^verbatim>\<open>str.strip\<close> removes the
  characters for which \<^verbatim>\<open>str.isspace\<close> holds: below 256 these are the code points 9 to 13,
  28 to 32, 133 (U+0085) and 160 (U+00A0). \<^verbatim>\<open>needle in hay\<close> is the search of a
  contiguous substring.
\<close>

definition lower_char :: "char \<Rightarrow> char" where
  "lower_char c =
     (let n = (of_char c :: nat) in if 65 \<le> n \<and> n \<le> 90 then char_of (n + 32) else c)"

definition upper_char :: "char \<Rightarrow> char" where
  "upper_char c =
     (let n = (of_char c :: nat) in if 97 \<le> n \<and> n \<le> 122 then char_of (n - 32) else c)"

definition lower :: "string \<Rightarrow> string" where
  "lower s = map lower_char s"

definition upper :: "string \<Rightarrow> string" where
  "upper s = map upper_char s"

fun startswith :: "string \<Rightarrow> string \<Rightarrow> bool" where
  "startswith s [] = True"
| "startswith [] (p # ps) = False"
| "startswith (c # s) (p # ps) = (c = p \<and> startswith s ps)"

fun str_in :: "string \<Rightarrow> string \<Rightarrow> bool" where
  "str_in needle [] = (needle = [])"
| "str_in needle (c # s) = (startswith (c # s) needle \<or> str_in needle s)"

definition is_space :: "char \<Rightarrow> bool" where
  "is_space c =
     (let n = (of_char c :: nat)
      in (9 \<le> n \<and> n \<le> 13) \<or> (28 \<le> n \<and> n \<le> 32) \<or> n = 133 \<or> n = 160)"

definition strip :: "string \<Rightarrow> string" where
  "strip s = rev (dropWhile is_space (rev (dropWhile is_space s)))"

text \<open>\<^verbatim>\<open>x or "unknown"\<close>: \<^verbatim>\<open>None\<close> and the empty string are both falsy.\<close>

definition or_unknown :: "string option \<Rightarrow> string" where
  "or_unknown x = (case x of None \<Rightarrow> ''unknown'' | Some s \<Rightarrow> if s = [] then ''unknown'' else s)"

text \<open>The truth value of a header value that is \<^verbatim>\<open>None\<close> or a string.\<close>

definition truthy :: "string option \<Rightarrow> bool" where
  "truthy x = (case x of None \<Rightarrow> False | Some s \<Rightarrow> s \<noteq> [])"

section \<open>Configuration, store and request\<close>

text \<open>
  The module reads global names that the patch does not define: \<^verbatim>\<open>ADMIN_KEY\<close>,
  \<^verbatim>\<open>UNIT\<close>, \<^verbatim>\<open>EPOCH_SLOTS\<close>, \<^verbatim>\<open>PER_EPOCH_RTC\<close>, \<^verbatim>\<open>HARDWARE_WEIGHTS\<close> and
  \<^verbatim>\<open>slot_to_epoch\<close>. They are the fields of a record that every handler takes.
  \<^verbatim>\<open>ADMIN_KEY\<close> is \<open>None\<close> when the secret is unset.
\<close>

record config =
  ADMIN_KEY :: "string option"
  UNIT :: int
  EPOCH_SLOTS :: int
  PER_EPOCH_RTC :: real
  HARDWARE_WEIGHTS :: "string \<rightharpoonup> (string \<rightharpoonup> real)"
  slot_to_epoch :: "int \<Rightarrow> int"

text \<open>A row of \<^verbatim>\<open>miner_attest_recent\<close> as the first statement of \<^verbatim>\<open>api_miners\<close> selects it.\<close>

record attest_row =
  miner :: string
  ts_ok :: int
  device_family :: "string option"
  device_arch :: "string option"
  entropy_score :: "real option"

text \<open>
  The SQLite database is outside the patch. The store gives the answer of each of the
  four statements for the value bound to its parameter: an exception of the driver
  (\<open>Inl\<close>) or the fetched result. \<^verbatim>\<open>fetchone\<close> answers \<open>None\<close> when there is no row;
  a column that is NULL is \<open>None\<close> inside the row.
\<close>

record store =
  select_recent :: "int \<Rightarrow> pyerr + attest_row list"
  select_first_ts :: "string \<Rightarrow> pyerr + int option option"
  select_balance :: "string \<Rightarrow> pyerr + int option option"
  select_enrolled :: "int \<Rightarrow> pyerr + int"

datatype statement =
    Recent int
  | First_ts string
  | Balance string
  | Enrolled int

datatype effect = Query statement | Gauge_set int

text \<open>
  The request: the value of \<^verbatim>\<open>request.headers.get("X-API-Key")\<close>, the value of
  \<^verbatim>\<open>request.args.get("miner_id")\<close> and the attribute \<^verbatim>\<open>request._is_admin\<close>, which is
  \<open>None\<close> until something assigns it.
\<close>

record request =
  x_api_key :: "string option"
  miner_id_arg :: "string option"
  is_admin_attr :: "bool option"

type_synonym response = "json \<times> nat"

type_synonym handler = "request \<Rightarrow> effect list \<times> (pyerr + response)"

section \<open>The decorator\<close>

text \<open>
  Lines 15 to 21: the wrapper. It calls \<^verbatim>\<open>f\<close>, a name that is not bound in
  \<^verbatim>\<open>public_endpoint\<close>; here it is the parameter \<open>f\<close>. The positional and keyword
  arguments are passed on unchanged and are left out.
\<close>

definition decorated_is_admin :: "config \<Rightarrow> request \<Rightarrow> bool" where
  "decorated_is_admin cfg req =
     (let key = x_api_key req in if truthy key then key = ADMIN_KEY cfg else False)"

definition decorated :: "config \<Rightarrow> handler \<Rightarrow> handler" where
  "decorated cfg f req = f (req\<lparr>is_admin_attr := Some (decorated_is_admin cfg req)\<rparr>)"

text \<open>
  Lines 7 to 22: \<^verbatim>\<open>public_endpoint(require_auth)\<close> evaluates \<^verbatim>\<open>wraps(f)\<close> before it
  returns the wrapper. \<^verbatim>\<open>f\<close> is neither a parameter nor a local name, so Python looks it
  up among the globals of the module, which \<open>globals\<close> stands for.
\<close>

definition public_endpoint :: "(string \<rightharpoonup> handler) \<Rightarrow> config \<Rightarrow> bool \<Rightarrow> pyerr + handler" where
  "public_endpoint globals cfg require_auth =
     (case globals ''f'' of
        None \<Rightarrow> Inl NameError
      | Some f \<Rightarrow> Inr (decorated cfg f))"

section \<open>The miners list\<close>

definition hardware_type :: "string option \<Rightarrow> string option \<Rightarrow> string" where
  "hardware_type family architecture =
     (let arch = lower (or_unknown architecture);
          fam = lower (or_unknown family);
          title_arch = or_unknown architecture
      in if str_in ''powerpc'' fam \<or> str_in ''ppc'' fam then
           (if arch \<in> set [''g3'', ''g4'', ''g5'']
            then ''PowerPC '' @ upper title_arch @ '' (Vintage)''
            else ''PowerPC (Vintage)'')
         else if str_in ''apple'' (lower fam) \<or> arch \<in> set [''m1'', ''m2'', ''m3'', ''apple_silicon'']
           then ''Apple Silicon (Modern)''
         else if str_in ''x86'' (lower fam) \<or> str_in ''modern'' (lower fam) then
           (if str_in ''retro'' arch \<or> str_in ''core2'' arch
            then ''x86 Retro (Vintage)''
            else ''x86-64 (Modern)'')
         else ''Unknown/Other'')"

definition antiquity_multiplier :: "config \<Rightarrow> string option \<Rightarrow> string option \<Rightarrow> real" where
  "antiquity_multiplier cfg family architecture =
     (let title_fam = or_unknown family;
          title_arch = or_unknown architecture
      in dict_get (dict_get (HARDWARE_WEIGHTS cfg) title_fam Map.empty) title_arch
           (dict_get (dict_get (HARDWARE_WEIGHTS cfg) title_fam Map.empty) ''default'' 1))"

definition json_of_str :: "string option \<Rightarrow> json" where
  "json_of_str x = (case x of None \<Rightarrow> JNull | Some s \<Rightarrow> JStr s)"

text \<open>Lines 71 to 78: the dictionary every caller gets.\<close>

definition miner_data :: "config \<Rightarrow> attest_row \<Rightarrow> pydict" where
  "miner_data cfg r =
     [(''miner'', JStr (miner r)),
      (''last_attest'', JInt (ts_ok r)),
      (''device_family'', json_of_str (device_family r)),
      (''device_arch'', json_of_str (device_arch r)),
      (''hardware_type'', JStr (hardware_type (device_family r) (device_arch r))),
      (''antiquity_multiplier'', JFloat (antiquity_multiplier cfg (device_family r) (device_arch r)))]"

text \<open>
  Lines 83 to 90: \<^verbatim>\<open>int(row2[0]) if row2 and row2[0] else None\<close> inside
  \<^verbatim>\<open>try ... except Exception\<close>. A row whose column is NULL or 0 is falsy.
\<close>

definition first_attest :: "store \<Rightarrow> string \<Rightarrow> json" where
  "first_attest st m =
     (case select_first_ts st m of
        Inl e \<Rightarrow> JNull
      | Inr None \<Rightarrow> JNull
      | Inr (Some None) \<Rightarrow> JNull
      | Inr (Some (Some t)) \<Rightarrow> if t = 0 then JNull else JInt t)"

text \<open>\<^verbatim>\<open>r["entropy_score"] or 0.0\<close>.\<close>

definition entropy_or_zero :: "real option \<Rightarrow> real" where
  "entropy_or_zero x = (case x of None \<Rightarrow> 0 | Some e \<Rightarrow> if e = 0 then 0 else e)"

text \<open>One turn of the loop of lines 51 to 95: the statements it runs and the dictionary it appends.\<close>

definition miner_entry :: "config \<Rightarrow> store \<Rightarrow> bool \<Rightarrow> attest_row \<Rightarrow> effect list \<times> pydict" where
  "miner_entry cfg st is_authenticated r =
     (if is_authenticated
      then ([Query (First_ts (miner r))],
            setitem (setitem (miner_data cfg r) ''first_attest'' (first_attest st (miner r)))
              ''entropy_score'' (JFloat (entropy_or_zero (entropy_score r))))
      else ([], miner_data cfg r))"

fun miners_loop :: "config \<Rightarrow> store \<Rightarrow> bool \<Rightarrow> attest_row list \<Rightarrow> effect list \<times> pydict list" where
  "miners_loop cfg st is_authenticated [] = ([], [])"
| "miners_loop cfg st is_authenticated (r # rows) =
     (let (qs, d) = miner_entry cfg st is_authenticated r;
          (qs', ds) = miners_loop cfg st is_authenticated rows
      in (qs @ qs', d # ds))"

text \<open>\<^verbatim>\<open>getattr(request, '_is_admin', False)\<close>.\<close>

definition getattr_is_admin :: "request \<Rightarrow> bool" where
  "getattr_is_admin req = (case is_admin_attr req of None \<Rightarrow> False | Some b \<Rightarrow> b)"

text \<open>Lines 30 to 97; \<open>now\<close> is \<^verbatim>\<open>int(time.time())\<close>.\<close>

definition api_miners :: "config \<Rightarrow> store \<Rightarrow> int \<Rightarrow> handler" where
  "api_miners cfg st now req =
     (let is_authenticated = getattr_is_admin req in
      case select_recent st (now - 3600) of
        Inl e \<Rightarrow> ([Query (Recent (now - 3600))], Inl e)
      | Inr rows \<Rightarrow>
          (let (qs, miners) = miners_loop cfg st is_authenticated rows
           in (Query (Recent (now - 3600)) # qs, Inr (JArr (map JObj miners), 200))))"

text \<open>Lines 92 and 93: the two entries that the handler adds for an authenticated caller.\<close>

definition restricted_fields :: "store \<Rightarrow> attest_row \<Rightarrow> pydict" where
  "restricted_fields st r =
     [(''first_attest'', first_attest st (miner r)),
      (''entropy_score'', JFloat (entropy_or_zero (entropy_score r)))]"

section \<open>The balance\<close>

text \<open>Line 111: the request goes on when \<^verbatim>\<open>key != ADMIN_KEY\<close> is false.\<close>

definition balance_key_accepted :: "config \<Rightarrow> request \<Rightarrow> bool" where
  "balance_key_accepted cfg req = (\<not> (x_api_key req \<noteq> ADMIN_KEY cfg))"

definition authentication_required :: response where
  "authentication_required =
     (JObj [(''ok'', JBool False),
            (''reason'', JStr ''authentication_required''),
            (''message'', JStr ''Provide X-API-Key header with valid admin key'')], 401)"

definition miner_id_required :: response where
  "miner_id_required = (JObj [(''ok'', JBool False), (''error'', JStr ''miner_id required'')], 400)"

text \<open>\<^verbatim>\<open>int(row[0])\<close> on an integer column: \<^verbatim>\<open>int(None)\<close> raises TypeError.\<close>

definition int_of_column :: "int option \<Rightarrow> pyerr + int" where
  "int_of_column x = (case x of None \<Rightarrow> Inl TypeError | Some a \<Rightarrow> Inr a)"

text \<open>
  Line 125: \<^verbatim>\<open>amt / UNIT\<close> on two ints. Python raises ZeroDivisionError for a zero
  divisor, and otherwise returns the binary64 value nearest to the exact quotient, ties
  going to the even significand, or raises OverflowError when that value is beyond the
  largest float. With \<open>2 ^ e\<close> the largest power of two not above the quotient, the
  significand has 53 bits and its last bit is worth \<open>2 ^ (e - 52)\<close>, and never less than
  \<open>2 ^ (- 1074)\<close>, the smallest subnormal.
\<close>

function bit_length :: "int \<Rightarrow> int" where
  "bit_length n = (if n \<le> 0 then 0 else 1 + bit_length (n div 2))"
  by pat_completeness auto
termination
  by (relation "measure nat") auto

definition round_half_even :: "int \<Rightarrow> int \<Rightarrow> int" where
  "round_half_even num den =
     (let f = num div den; r = num mod den
      in if 2 * r < den then f
         else if den < 2 * r then f + 1
         else if even f then f else f + 1)"

definition truediv :: "int \<Rightarrow> int \<Rightarrow> pyerr + real" where
  "truediv a b =
     (if b = 0 then Inl ZeroDivisionError
      else if a = 0 then Inr 0
      else
        (let n = \<bar>a\<bar>; d = \<bar>b\<bar>;
             k = bit_length n - bit_length d;
             e = (if (if 0 \<le> k then d * 2 ^ nat k \<le> n else d \<le> n * 2 ^ nat (- k))
                  then k else k - 1);
             s = max e (- 1022) - 52;
             m = (if 0 \<le> s then round_half_even n (d * 2 ^ nat s)
                  else round_half_even (n * 2 ^ nat (- s)) d);
             sign = (if (a < 0) = (b < 0) then 1 else - 1)
         in if 0 \<le> s \<and> 2 ^ 1024 \<le> m * 2 ^ nat s then Inl OverflowError
            else if 0 \<le> s then Inr (of_int (sign * (m * 2 ^ nat s)))
            else Inr (of_int (sign * m) / 2 ^ nat (- s))))"

text \<open>Lines 104 to 126.\<close>

definition api_wallet_balance :: "config \<Rightarrow> store \<Rightarrow> handler" where
  "api_wallet_balance cfg st req =
     (if \<not> balance_key_accepted cfg req then ([], Inr authentication_required)
      else
        (let miner_id = strip (case miner_id_arg req of None \<Rightarrow> [] | Some s \<Rightarrow> s) in
         if miner_id = [] then ([], Inr miner_id_required)
         else
           (case select_balance st miner_id of
              Inl e \<Rightarrow> ([Query (Balance miner_id)], Inl e)
            | Inr row \<Rightarrow>
                (case (case row of None \<Rightarrow> Inr 0 | Some x \<Rightarrow> int_of_column x) of
                   Inl e \<Rightarrow> ([Query (Balance miner_id)], Inl e)
                 | Inr amt \<Rightarrow>
                     (case truediv amt (UNIT cfg) of
                        Inl e \<Rightarrow> ([Query (Balance miner_id)], Inl e)
                      | Inr amount_rtc \<Rightarrow>
                          ([Query (Balance miner_id)],
                           Inr (JObj [(''miner_id'', JStr miner_id),
                                      (''amount_i64'', JInt amt),
                                      (''amount_rtc'', JFloat amount_rtc)],
                                200)))))))"

section \<open>The epoch\<close>

definition epoch_is_authenticated :: "config \<Rightarrow> request \<Rightarrow> bool" where
  "epoch_is_authenticated cfg req =
     (let key = x_api_key req in if truthy key then key = ADMIN_KEY cfg else False)"

text \<open>Lines 133 to 163; \<open>slot\<close> is the value of \<^verbatim>\<open>current_slot()\<close>.\<close>

definition get_epoch :: "config \<Rightarrow> store \<Rightarrow> int \<Rightarrow> handler" where
  "get_epoch cfg st slot req =
     (let is_authenticated = epoch_is_authenticated cfg req;
          epoch = slot_to_epoch cfg slot
      in case select_enrolled st epoch of
           Inl e \<Rightarrow> ([Gauge_set epoch, Query (Enrolled epoch)], Inl e)
         | Inr enrolled \<Rightarrow>
             (let response = [(''epoch'', JInt epoch),
                              (''slot'', JInt slot),
                              (''blocks_per_epoch'', JInt (EPOCH_SLOTS cfg))];
                  response' = (if is_authenticated
                               then setitem (setitem response ''epoch_pot'' (JFloat (PER_EPOCH_RTC cfg)))
                                      ''enrolled_miners'' (JInt enrolled)
                               else response)
              in ([Gauge_set epoch, Query (Enrolled epoch)], Inr (JObj response', 200))))"

section \<open>The specification's reading of the derived fields\<close>

text \<open>
  The four label categories of the specification, the labels that belong to each, and the
  category that its matching rules give, in their order, to the lower-cased family and
  architecture.
\<close>

datatype hw_category = PowerPC_Vintage | Apple_Silicon_Modern | X86_Retro_or_64 | Unknown_Other

fun category_labels :: "hw_category \<Rightarrow> string list" where
  "category_labels PowerPC_Vintage =
     [''PowerPC G3 (Vintage)'', ''PowerPC G4 (Vintage)'', ''PowerPC G5 (Vintage)'', ''PowerPC (Vintage)'']"
| "category_labels Apple_Silicon_Modern = [''Apple Silicon (Modern)'']"
| "category_labels X86_Retro_or_64 = [''x86 Retro (Vintage)'', ''x86-64 (Modern)'']"
| "category_labels Unknown_Other = [''Unknown/Other'']"

definition categories_of_label :: "string \<Rightarrow> hw_category list" where
  "categories_of_label l =
     filter (\<lambda>c. l \<in> set (category_labels c))
       [PowerPC_Vintage, Apple_Silicon_Modern, X86_Retro_or_64, Unknown_Other]"

definition spec_category :: "string option \<Rightarrow> string option \<Rightarrow> hw_category" where
  "spec_category family architecture =
     (let fam = lower (or_unknown family); arch = lower (or_unknown architecture)
      in if str_in ''powerpc'' fam \<or> str_in ''ppc'' fam then PowerPC_Vintage
         else if str_in ''apple'' fam \<or> arch \<in> set [''m1'', ''m2'', ''m3'', ''apple_silicon'']
           then Apple_Silicon_Modern
         else if str_in ''x86'' fam \<or> str_in ''modern'' fam then X86_Retro_or_64
         else Unknown_Other)"

text \<open>
  The antiquity multiplier in the specification's words: the entry of the family and the
  architecture, else the family's entry \<open>default\<close>, else 1.0.
\<close>

definition spec_multiplier :: "(string \<rightharpoonup> (string \<rightharpoonup> real)) \<Rightarrow> string \<Rightarrow> string \<Rightarrow> real" where
  "spec_multiplier table fam arch =
     (case table fam of
        None \<Rightarrow> 1
      | Some entry \<Rightarrow>
          (case entry arch of
             Some w \<Rightarrow> w
           | None \<Rightarrow> (case entry ''default'' of Some w \<Rightarrow> w | None \<Rightarrow> 1)))"

section \<open>Sample values\<close>

text \<open>A configuration, a store and a request on which the handlers are evaluated below.\<close>

definition sample_config :: config where
  "sample_config =
     \<lparr>ADMIN_KEY = Some ''s3cret'', UNIT = 1000000, EPOCH_SLOTS = 144, PER_EPOCH_RTC = 3 / 2,
      HARDWARE_WEIGHTS = [''PowerPC'' \<mapsto> [''G4'' \<mapsto> 5 / 2, ''default'' \<mapsto> 3 / 2]],
      slot_to_epoch = (\<lambda>slot. slot div 144)\<rparr>"

definition sample_rows :: "attest_row list" where
  "sample_rows =
     [\<lparr>miner = ''alice'', ts_ok = 1700000000, device_family = Some ''PowerPC'',
       device_arch = Some ''G4'', entropy_score = Some (1 / 2)\<rparr>,
      \<lparr>miner = ''bob'', ts_ok = 1699999000, device_family = None,
       device_arch = None, entropy_score = None\<rparr>]"

definition sample_store :: store where
  "sample_store =
     \<lparr>select_recent = (\<lambda>t. Inr sample_rows),
      select_first_ts = (\<lambda>m. if m = ''alice'' then Inr (Some (Some 1600000000)) else Inl DatabaseError),
      select_balance = (\<lambda>m. if m = ''alice'' then Inr (Some (Some 5000000)) else Inr None),
      select_enrolled = (\<lambda>e. Inr 2)\<rparr>"

definition sample_request :: request where
  "sample_request = \<lparr>x_api_key = None, miner_id_arg = Some ''alice'', is_admin_attr = None\<rparr>"

text \<open>The sample store once the history of the second miner can be read.\<close>

definition sample_store_bob_known :: store where
  "sample_store_bob_known =
     sample_store\<lparr>select_first_ts :=
       (\<lambda>m. if m = ''bob'' then Inr (Some (Some 1650000000)) else select_first_ts sample_store m)\<rparr>"

section \<open>The hardware classification\<close>

lemma upper_lower_char: "upper_char (lower_char c) = upper_char c"
proof (cases "65 \<le> (of_char c :: nat) \<and> (of_char c :: nat) \<le> 90")
  case True
  then have "lower_char c = char_of (of_char c + 32 :: nat)"
    by (simp add: lower_char_def)
  moreover from True have "(of_char (char_of (of_char c + 32 :: nat)) :: nat) = of_char c + 32"
    by simp
  ultimately have "upper_char (lower_char c) = char_of (of_char c :: nat)"
    using True by (simp add: upper_char_def)
  moreover from True have "upper_char c = c"
    by (simp add: upper_char_def)
  ultimately show ?thesis by simp
next
  case False
  then show ?thesis by (auto simp: lower_char_def Let_def)
qed

lemma lower_lower_char: "lower_char (lower_char c) = lower_char c"
proof (cases "65 \<le> (of_char c :: nat) \<and> (of_char c :: nat) \<le> 90")
  case True
  then have l: "lower_char c = char_of (of_char c + 32 :: nat)"
    by (simp add: lower_char_def)
  from True have "(of_char (char_of (of_char c + 32 :: nat)) :: nat) = of_char c + 32"
    by simp
  with True have "lower_char (char_of (of_char c + 32 :: nat)) = char_of (of_char c + 32 :: nat)"
    by (simp add: lower_char_def)
  with l show ?thesis by simp
next
  case False
  then show ?thesis by (auto simp: lower_char_def Let_def)
qed

lemma upper_lower: "upper (lower s) = upper s"
  by (simp add: upper_def lower_def upper_lower_char)

lemma lower_lower: "lower (lower s) = lower s"
  by (simp add: lower_def lower_lower_char)

lemma upper_g3: "upper ''g3'' = ''G3''" and upper_g4: "upper ''g4'' = ''G4''" and upper_g5: "upper ''g5'' = ''G5''"
  by (simp_all add: upper_def upper_char_def char_of_eq_iff)

lemma upper_of_lower: "lower s = t \<Longrightarrow> upper s = upper t"
  using upper_lower [of s] by simp

lemma powerpc_label:
  "lower a \<in> set [''g3'', ''g4'', ''g5''] \<Longrightarrow>
   ''PowerPC '' @ upper a @ '' (Vintage)'' \<in> set (category_labels PowerPC_Vintage)"
  using upper_of_lower [of a] by (auto simp: upper_g3 upper_g4 upper_g5)

lemma hardware_type_in_category:
  "hardware_type family architecture \<in> set (category_labels (spec_category family architecture))"
proof -
  define fam where "fam = lower (or_unknown family)"
  define arch where "arch = lower (or_unknown architecture)"
  consider (ppc) "str_in ''powerpc'' fam \<or> str_in ''ppc'' fam"
    | (apple) "\<not> (str_in ''powerpc'' fam \<or> str_in ''ppc'' fam)"
        "str_in ''apple'' fam \<or> arch \<in> set [''m1'', ''m2'', ''m3'', ''apple_silicon'']"
    | (x86) "\<not> (str_in ''powerpc'' fam \<or> str_in ''ppc'' fam)"
        "\<not> (str_in ''apple'' fam \<or> arch \<in> set [''m1'', ''m2'', ''m3'', ''apple_silicon''])"
        "str_in ''x86'' fam \<or> str_in ''modern'' fam"
    | (other) "\<not> (str_in ''powerpc'' fam \<or> str_in ''ppc'' fam)"
        "\<not> (str_in ''apple'' fam \<or> arch \<in> set [''m1'', ''m2'', ''m3'', ''apple_silicon''])"
        "\<not> (str_in ''x86'' fam \<or> str_in ''modern'' fam)"
    by blast
  then show ?thesis
  proof cases
    case ppc
    then have c: "spec_category family architecture = PowerPC_Vintage"
      by (simp add: spec_category_def fam_def)
    show ?thesis
    proof (cases "arch \<in> set [''g3'', ''g4'', ''g5'']")
      case True
      with ppc have "hardware_type family architecture
          = ''PowerPC '' @ upper (or_unknown architecture) @ '' (Vintage)''"
        unfolding hardware_type_def Let_def fam_def arch_def by (simp only: if_True)
      with True c show ?thesis
        using powerpc_label [of "or_unknown architecture"] by (simp only: arch_def)
    next
      case False
      with ppc have "hardware_type family architecture = ''PowerPC (Vintage)''"
        unfolding hardware_type_def Let_def fam_def arch_def by (simp only: if_True if_False)
      with c show ?thesis by simp
    qed
  next
    case apple
    then have "spec_category family architecture = Apple_Silicon_Modern"
      by (simp add: spec_category_def fam_def arch_def)
    moreover from apple have "hardware_type family architecture = ''Apple Silicon (Modern)''"
      unfolding hardware_type_def Let_def lower_lower fam_def arch_def
      by (simp only: if_True if_False)
    ultimately show ?thesis by simp
  next
    case x86
    then have "spec_category family architecture = X86_Retro_or_64"
      by (simp add: spec_category_def fam_def arch_def)
    moreover from x86 have "hardware_type family architecture
        = (if str_in ''retro'' arch \<or> str_in ''core2'' arch
           then ''x86 Retro (Vintage)'' else ''x86-64 (Modern)'')"
      unfolding hardware_type_def Let_def lower_lower fam_def arch_def
      by (simp only: if_True if_False)
    ultimately show ?thesis by simp
  next
    case other
    then have "spec_category family architecture = Unknown_Other"
      by (simp add: spec_category_def fam_def arch_def)
    moreover from other have "hardware_type family architecture = ''Unknown/Other''"
      unfolding hardware_type_def Let_def lower_lower fam_def arch_def
      by (simp only: if_True if_False)
    ultimately show ?thesis by simp
  qed
qed

lemma categories_of_label_unique:
  "l \<in> set (category_labels c) \<Longrightarrow> categories_of_label l = [c]"
  by (cases c) (auto simp: categories_of_label_def)

text \<open>
  C4. The hardware classification is a total function of the family and the architecture,
  either of which may be null: its label belongs to exactly one of the four categories,
  the one that the rules give in the order powerpc or ppc, then apple or an architecture
  among m1, m2, m3 and apple_silicon, then x86 or modern, else Unknown/Other. Family
  Apple with architecture M2 is Apple Silicon (Modern); both null is Unknown/Other.
\<close>

theorem C4_hardware_type_category:
  "categories_of_label (hardware_type family architecture) = [spec_category family architecture]
   \<and> hardware_type (Some ''Apple'') (Some ''M2'') = ''Apple Silicon (Modern)''
   \<and> hardware_type None None = ''Unknown/Other''"
proof -
  have "categories_of_label (hardware_type family architecture) = [spec_category family architecture]"
    by (rule categories_of_label_unique) (rule hardware_type_in_category)
  moreover have "hardware_type (Some ''Apple'') (Some ''M2'') = ''Apple Silicon (Modern)''"
    by (simp add: hardware_type_def lower_def lower_char_def or_unknown_def char_of_eq_iff)
  moreover have "hardware_type None None = ''Unknown/Other''"
    by (simp add: hardware_type_def lower_def lower_char_def or_unknown_def)
  ultimately show ?thesis by simp
qed

section \<open>The access checks\<close>

lemma decorated_is_admin_iff:
  "decorated_is_admin cfg req \<longleftrightarrow>
     (x_api_key req = ADMIN_KEY cfg \<and> x_api_key req \<noteq> None \<and> x_api_key req \<noteq> Some [])"
  by (cases "x_api_key req") (auto simp: decorated_is_admin_def truthy_def Let_def)

lemma epoch_is_authenticated_iff:
  "epoch_is_authenticated cfg req \<longleftrightarrow>
     (x_api_key req = ADMIN_KEY cfg \<and> x_api_key req \<noteq> None \<and> x_api_key req \<noteq> Some [])"
  by (cases "x_api_key req") (auto simp: epoch_is_authenticated_def truthy_def Let_def)

lemma balance_key_accepted_iff:
  "balance_key_accepted cfg req \<longleftrightarrow> x_api_key req = ADMIN_KEY cfg"
  by (simp add: balance_key_accepted_def)

text \<open>
  The division of line 125 on a zero dividend, and on three dividends with the divisor
  1000000: an exact quotient and two that are rounded to 53 bits.
\<close>

lemma truediv_zero: "b \<noteq> 0 \<Longrightarrow> truediv 0 b = Inr 0"
  by (simp add: truediv_def)

lemma truediv_exact: "truediv 5000000 1000000 = Inr 5"
  by code_simp

lemma truediv_large: "truediv (2 ^ 63 - 1) 1000000 = Inr (4722366482869645 / 512)"
  by code_simp

lemma truediv_small: "truediv 1 1000000 = Inr (4722366482869645 / 2 ^ 72)"
  by code_simp

text \<open>
  C1. The three checks are meant to agree: the caller is the administrator exactly when the
  header is non-empty and equals the secret. The wrapper and the epoch handler do so. The
  balance handler does not: when the secret is unset and the header is absent, or both are
  the empty string, it takes the caller for the administrator and answers with the balance.
\<close>

theorem C1_balance_accepts_absent_or_empty_key:
  "\<not> decorated_is_admin (sample_config\<lparr>ADMIN_KEY := None\<rparr>) sample_request
   \<and> \<not> epoch_is_authenticated (sample_config\<lparr>ADMIN_KEY := None\<rparr>) sample_request
   \<and> balance_key_accepted (sample_config\<lparr>ADMIN_KEY := None\<rparr>) sample_request
   \<and> api_wallet_balance (sample_config\<lparr>ADMIN_KEY := None\<rparr>) sample_store sample_request
       = ([Query (Balance ''alice'')],
          Inr (JObj [(''miner_id'', JStr ''alice''), (''amount_i64'', JInt 5000000),
                     (''amount_rtc'', JFloat 5)], 200))
   \<and> \<not> decorated_is_admin (sample_config\<lparr>ADMIN_KEY := Some []\<rparr>) (sample_request\<lparr>x_api_key := Some []\<rparr>)
   \<and> \<not> epoch_is_authenticated (sample_config\<lparr>ADMIN_KEY := Some []\<rparr>) (sample_request\<lparr>x_api_key := Some []\<rparr>)
   \<and> balance_key_accepted (sample_config\<lparr>ADMIN_KEY := Some []\<rparr>) (sample_request\<lparr>x_api_key := Some []\<rparr>)
   \<and> api_wallet_balance (sample_config\<lparr>ADMIN_KEY := Some []\<rparr>) sample_store
         (sample_request\<lparr>x_api_key := Some []\<rparr>)
       = ([Query (Balance ''alice'')],
          Inr (JObj [(''miner_id'', JStr ''alice''), (''amount_i64'', JInt 5000000),
                     (''amount_rtc'', JFloat 5)], 200))"
  by (simp add: decorated_is_admin_def epoch_is_authenticated_def balance_key_accepted_def
      api_wallet_balance_def truthy_def sample_config_def sample_request_def sample_store_def
      strip_def is_space_def int_of_column_def truediv_exact Let_def)

section \<open>The balance handler\<close>

text \<open>
  When the header value differs from \<^verbatim>\<open>ADMIN_KEY\<close>, the balance handler runs no statement
  and answers 401 with the body of the specification, whatever the store holds.
\<close>

lemma balance_rejects_other_key:
  assumes "x_api_key req \<noteq> ADMIN_KEY cfg"
  shows "api_wallet_balance cfg st req =
           ([], Inr (JObj [(''ok'', JBool False),
                           (''reason'', JStr ''authentication_required''),
                           (''message'', JStr ''Provide X-API-Key header with valid admin key'')],
                     401))"
  using assms
  by (simp add: api_wallet_balance_def balance_key_accepted_def authentication_required_def)

text \<open>
  With a secret that is set and non-empty, every request that the wrapper's check takes
  for anonymous is rejected by the balance handler.
\<close>

lemma balance_rejects_anonymous:
  assumes "ADMIN_KEY cfg = Some s" and "s \<noteq> []" and "\<not> decorated_is_admin cfg req"
  shows "api_wallet_balance cfg st req = ([], Inr authentication_required)"
  using assms
  by (auto simp: api_wallet_balance_def balance_key_accepted_def decorated_is_admin_iff)

text \<open>
  C2. Every request without the right credential is to be answered 401 with no statement
  run. A request without the header has no credential; yet when the secret is unset, the
  balance handler runs the statement on \<open>balances\<close> for it and answers 200 with a balance,
  not the 401 body.
\<close>

theorem C2_balance_queries_without_credential:
  "x_api_key (sample_request\<lparr>miner_id_arg := Some ''carol''\<rparr>) = None
   \<and> \<not> decorated_is_admin (sample_config\<lparr>ADMIN_KEY := None\<rparr>)
         (sample_request\<lparr>miner_id_arg := Some ''carol''\<rparr>)
   \<and> api_wallet_balance (sample_config\<lparr>ADMIN_KEY := None\<rparr>) sample_store
         (sample_request\<lparr>miner_id_arg := Some ''carol''\<rparr>)
       = ([Query (Balance ''carol'')],
          Inr (JObj [(''miner_id'', JStr ''carol''), (''amount_i64'', JInt 0),
                     (''amount_rtc'', JFloat 0)], 200))
   \<and> api_wallet_balance (sample_config\<lparr>ADMIN_KEY := None\<rparr>) sample_store
         (sample_request\<lparr>miner_id_arg := Some ''carol''\<rparr>)
       \<noteq> ([], Inr (JObj [(''ok'', JBool False),
                          (''reason'', JStr ''authentication_required''),
                          (''message'', JStr ''Provide X-API-Key header with valid admin key'')],
                    401))"
  by (simp add: decorated_is_admin_def balance_key_accepted_def api_wallet_balance_def
      truthy_def sample_config_def sample_request_def sample_store_def strip_def is_space_def
      truediv_zero Let_def)

text \<open>
  C7. With the right key, a \<open>miner_id\<close> that is absent or empty once stripped is answered
  with 400 and exactly the body of the specification, whatever the store holds; no
  statement runs.
\<close>

theorem C7_balance_requires_miner_id:
  assumes "x_api_key req = ADMIN_KEY cfg"
    and "miner_id_arg req = None \<or> (\<exists>s. miner_id_arg req = Some s \<and> strip s = [])"
  shows "api_wallet_balance cfg st req =
           ([], Inr (JObj [(''ok'', JBool False), (''error'', JStr ''miner_id required'')], 400))"
  using assms
  by (auto simp: api_wallet_balance_def balance_key_accepted_def miner_id_required_def strip_def)

theorem C7_balance_requires_miner_id_witness:
  "x_api_key (sample_request\<lparr>x_api_key := Some ''s3cret'', miner_id_arg := Some [CHR 0xA0, CHR '' '']\<rparr>)
     = ADMIN_KEY sample_config
   \<and> strip [CHR 0xA0, CHR '' ''] = []
   \<and> api_wallet_balance sample_config sample_store
        (sample_request\<lparr>x_api_key := Some ''s3cret'', miner_id_arg := Some [CHR 0xA0, CHR '' '']\<rparr>) =
           ([], Inr (JObj [(''ok'', JBool False), (''error'', JStr ''miner_id required'')], 400))"
proof -
  let ?req = "sample_request\<lparr>x_api_key := Some ''s3cret'', miner_id_arg := Some [CHR 0xA0, CHR '' '']\<rparr>"
  have k: "x_api_key ?req = ADMIN_KEY sample_config"
    by (simp add: sample_config_def)
  have e: "strip [CHR 0xA0, CHR '' ''] = []"
    by (simp add: strip_def is_space_def)
  then have m: "miner_id_arg ?req = None \<or> (\<exists>s. miner_id_arg ?req = Some s \<and> strip s = [])"
    by simp
  show ?thesis
    using k e C7_balance_requires_miner_id [OF k m, of sample_store] by simp
qed



section \<open>The miners handler\<close>

lemma keys_miner_data:
  "keys (miner_data cfg r) =
     [''miner'', ''last_attest'', ''device_family'', ''device_arch'', ''hardware_type'',
      ''antiquity_multiplier'']"
  by (simp add: keys_def miner_data_def)

lemma miner_entry_anonymous: "miner_entry cfg st False r = ([], miner_data cfg r)"
  by (simp add: miner_entry_def)

lemma miner_entry_admin:
  "miner_entry cfg st True r =
     ([Query (First_ts (miner r))], miner_data cfg r @ restricted_fields st r)"
  by (simp add: miner_entry_def miner_data_def restricted_fields_def)

lemma miners_loop_anonymous: "miners_loop cfg st False rows = ([], map (miner_data cfg) rows)"
  by (induction rows) (simp_all add: miner_entry_anonymous)

lemma miners_loop_admin:
  "miners_loop cfg st True rows =
     (map (\<lambda>r. Query (First_ts (miner r))) rows,
      map (\<lambda>r. miner_data cfg r @ restricted_fields st r) rows)"
  by (induction rows) (simp_all add: miner_entry_admin)

lemma api_miners_anonymous:
  assumes "getattr_is_admin req = False" and "select_recent st (now - 3600) = Inr rows"
  shows "api_miners cfg st now req =
           ([Query (Recent (now - 3600))],
            Inr (JArr (map (\<lambda>r. JObj (miner_data cfg r)) rows), 200))"
  using assms by (simp add: api_miners_def miners_loop_anonymous comp_def)

lemma api_miners_admin:
  assumes "getattr_is_admin req = True" and "select_recent st (now - 3600) = Inr rows"
  shows "api_miners cfg st now req =
           (Query (Recent (now - 3600)) # map (\<lambda>r. Query (First_ts (miner r))) rows,
            Inr (JArr (map (\<lambda>r. JObj (miner_data cfg r @ restricted_fields st r)) rows), 200))"
  using assms by (simp add: api_miners_def miners_loop_admin comp_def)

lemma api_miners_raises:
  assumes "select_recent st (now - 3600) = Inl e"
  shows "api_miners cfg st now req = ([Query (Recent (now - 3600))], Inl e)"
  using assms by (simp add: api_miners_def)

section \<open>The optional-auth endpoints\<close>

text \<open>
  C3, as stated, fails where the configured secret is the empty string: an empty header
  equals it, yet the epoch handler takes the caller for anonymous and answers with the
  three public fields only, as it does with no header at all.
\<close>

theorem C3_empty_secret_counterexample:
  "x_api_key (sample_request\<lparr>x_api_key := Some []\<rparr>) = ADMIN_KEY (sample_config\<lparr>ADMIN_KEY := Some []\<rparr>)
   \<and> get_epoch (sample_config\<lparr>ADMIN_KEY := Some []\<rparr>) sample_store 288
         (sample_request\<lparr>x_api_key := Some []\<rparr>)
       = ([Gauge_set 2, Query (Enrolled 2)],
          Inr (JObj [(''epoch'', JInt 2), (''slot'', JInt 288), (''blocks_per_epoch'', JInt 144)], 200))
   \<and> get_epoch (sample_config\<lparr>ADMIN_KEY := Some []\<rparr>) sample_store 288
         (sample_request\<lparr>x_api_key := Some []\<rparr>)
       = get_epoch (sample_config\<lparr>ADMIN_KEY := Some []\<rparr>) sample_store 288 sample_request"
  by (simp add: get_epoch_def epoch_is_authenticated_def truthy_def sample_config_def
      sample_store_def sample_request_def Let_def)

text \<open>
  C3, amended. Over the same store, the epoch handler answers with the three public fields
  and, exactly when the header is non-empty and equals the secret, with \<open>epoch_pot\<close> and
  \<open>enrolled_miners\<close> after them. The miners handler, run by the wrapper of lines 15 to 21,
  answers for each row with the six public fields and, under the same condition, with
  \<open>first_attest\<close> and \<open>entropy_score\<close> after them. Neither restricted name is among the
  public ones.
\<close>

theorem C3_restricted_fields_need_nonempty_key:
  "(select_enrolled st (slot_to_epoch cfg slot) = Inr n \<longrightarrow>
      snd (get_epoch cfg st slot req) =
        Inr (JObj ([(''epoch'', JInt (slot_to_epoch cfg slot)),
                    (''slot'', JInt slot),
                    (''blocks_per_epoch'', JInt (EPOCH_SLOTS cfg))]
                   @ (if x_api_key req = ADMIN_KEY cfg \<and> x_api_key req \<noteq> None
                         \<and> x_api_key req \<noteq> Some []
                      then [(''epoch_pot'', JFloat (PER_EPOCH_RTC cfg)),
                            (''enrolled_miners'', JInt n)]
                      else [])), 200))
   \<and> (select_recent st (now - 3600) = Inr rows \<longrightarrow>
      snd (decorated cfg (api_miners cfg st now) req) =
        Inr (JArr (map (\<lambda>r. JObj (miner_data cfg r
                   @ (if x_api_key req = ADMIN_KEY cfg \<and> x_api_key req \<noteq> None
                         \<and> x_api_key req \<noteq> Some []
                      then [(''first_attest'', first_attest st (miner r)),
                            (''entropy_score'', JFloat (entropy_or_zero (entropy_score r)))]
                      else []))) rows), 200))
   \<and> keys (miner_data cfg r) =
        [''miner'', ''last_attest'', ''device_family'', ''device_arch'', ''hardware_type'',
         ''antiquity_multiplier'']"
proof (intro conjI impI)
  assume enrolled: "select_enrolled st (slot_to_epoch cfg slot) = Inr n"
  show "snd (get_epoch cfg st slot req) =
        Inr (JObj ([(''epoch'', JInt (slot_to_epoch cfg slot)),
                    (''slot'', JInt slot),
                    (''blocks_per_epoch'', JInt (EPOCH_SLOTS cfg))]
                   @ (if x_api_key req = ADMIN_KEY cfg \<and> x_api_key req \<noteq> None
                         \<and> x_api_key req \<noteq> Some []
                      then [(''epoch_pot'', JFloat (PER_EPOCH_RTC cfg)),
                            (''enrolled_miners'', JInt n)]
                      else [])), 200)"
  proof (cases "epoch_is_authenticated cfg req")
    case True
    with enrolled have "snd (get_epoch cfg st slot req) =
        Inr (JObj [(''epoch'', JInt (slot_to_epoch cfg slot)),
                   (''slot'', JInt slot),
                   (''blocks_per_epoch'', JInt (EPOCH_SLOTS cfg)),
                   (''epoch_pot'', JFloat (PER_EPOCH_RTC cfg)),
                   (''enrolled_miners'', JInt n)], 200)"
      by (simp add: get_epoch_def Let_def)
    note r = this
    from True have c: "x_api_key req = ADMIN_KEY cfg \<and> x_api_key req \<noteq> None \<and> x_api_key req \<noteq> Some []"
      using epoch_is_authenticated_iff [of cfg req] by blast
    show ?thesis
      unfolding if_P [OF c] using r by simp
  next
    case False
    with enrolled have "snd (get_epoch cfg st slot req) =
        Inr (JObj [(''epoch'', JInt (slot_to_epoch cfg slot)),
                   (''slot'', JInt slot),
                   (''blocks_per_epoch'', JInt (EPOCH_SLOTS cfg))], 200)"
      by (simp add: get_epoch_def Let_def)
    note r = this
    from False have c: "\<not> (x_api_key req = ADMIN_KEY cfg \<and> x_api_key req \<noteq> None \<and> x_api_key req \<noteq> Some [])"
      using epoch_is_authenticated_iff [of cfg req] by blast
    show ?thesis
      unfolding if_not_P [OF c] using r by simp
  qed
next
  assume rows: "select_recent st (now - 3600) = Inr rows"
  let ?req = "req\<lparr>is_admin_attr := Some (decorated_is_admin cfg req)\<rparr>"
  have flag: "getattr_is_admin ?req = decorated_is_admin cfg req"
    by (simp add: getattr_is_admin_def)
  show "snd (decorated cfg (api_miners cfg st now) req) =
        Inr (JArr (map (\<lambda>r. JObj (miner_data cfg r
                   @ (if x_api_key req = ADMIN_KEY cfg \<and> x_api_key req \<noteq> None
                         \<and> x_api_key req \<noteq> Some []
                      then [(''first_attest'', first_attest st (miner r)),
                            (''entropy_score'', JFloat (entropy_or_zero (entropy_score r)))]
                      else []))) rows), 200)"
  proof (cases "decorated_is_admin cfg req")
    case True
    with flag have "getattr_is_admin ?req = True" by simp
    from api_miners_admin [OF this rows]
    have "snd (decorated cfg (api_miners cfg st now) req) =
        Inr (JArr (map (\<lambda>r. JObj (miner_data cfg r
                   @ [(''first_attest'', first_attest st (miner r)),
                      (''entropy_score'', JFloat (entropy_or_zero (entropy_score r)))])) rows), 200)"
      by (simp add: decorated_def restricted_fields_def)
    note r = this
    from True have c: "x_api_key req = ADMIN_KEY cfg \<and> x_api_key req \<noteq> None \<and> x_api_key req \<noteq> Some []"
      using decorated_is_admin_iff [of cfg req] by blast
    show ?thesis
      unfolding if_P [OF c] using r by simp
  next
    case False
    with flag have "getattr_is_admin ?req = False" by simp
    from api_miners_anonymous [OF this rows]
    have "snd (decorated cfg (api_miners cfg st now) req) =
        Inr (JArr (map (\<lambda>r. JObj (miner_data cfg r)) rows), 200)"
      by (simp add: decorated_def)
    note r = this
    from False have c: "\<not> (x_api_key req = ADMIN_KEY cfg \<and> x_api_key req \<noteq> None \<and> x_api_key req \<noteq> Some [])"
      using decorated_is_admin_iff [of cfg req] by blast
    show ?thesis
      unfolding if_not_P [OF c] using r by simp
  qed
next
  show "keys (miner_data cfg r) =
        [''miner'', ''last_attest'', ''device_family'', ''device_arch'', ''hardware_type'',
         ''antiquity_multiplier'']"
    by (rule keys_miner_data)
qed

theorem C3_restricted_fields_need_nonempty_key_witness:
  "select_enrolled sample_store (slot_to_epoch sample_config 288) = Inr 2
   \<and> snd (get_epoch sample_config sample_store 288 (sample_request\<lparr>x_api_key := Some ''s3cret''\<rparr>)) =
        Inr (JObj [(''epoch'', JInt 2), (''slot'', JInt 288), (''blocks_per_epoch'', JInt 144),
                   (''epoch_pot'', JFloat (3 / 2)), (''enrolled_miners'', JInt 2)], 200)
   \<and> select_recent sample_store (1700000100 - 3600) = Inr sample_rows
   \<and> snd (decorated sample_config (api_miners sample_config sample_store 1700000100)
             (sample_request\<lparr>x_api_key := Some ''s3cret''\<rparr>)) =
        Inr (JArr (map (\<lambda>r. JObj (miner_data sample_config r
                     @ [(''first_attest'', first_attest sample_store (miner r)),
                        (''entropy_score'', JFloat (entropy_or_zero (entropy_score r)))]))
                   sample_rows), 200)"
proof -
  let ?req = "sample_request\<lparr>x_api_key := Some ''s3cret''\<rparr>"
  have e: "select_enrolled sample_store (slot_to_epoch sample_config 288) = Inr 2"
    by (simp add: sample_store_def)
  have r: "select_recent sample_store (1700000100 - 3600) = Inr sample_rows"
    by (simp add: sample_store_def)
  have k: "x_api_key ?req = ADMIN_KEY sample_config \<and> x_api_key ?req \<noteq> None
           \<and> x_api_key ?req \<noteq> Some []"
    by (simp add: sample_config_def)
  have c: "slot_to_epoch sample_config 288 = 2" "EPOCH_SLOTS sample_config = 144"
    "PER_EPOCH_RTC sample_config = 3 / 2"
    by (simp_all add: sample_config_def)
  from C3_restricted_fields_need_nonempty_key
         [of sample_store sample_config 288 2 ?req 1700000100 sample_rows]
  show ?thesis
    unfolding if_P [OF k] using e r c by simp
qed

section \<open>The antiquity multiplier\<close>

text \<open>
  C5. The multiplier is the entry of the weight table for the family and the architecture
  as they are written (a null or empty one being \<open>unknown\<close>), else the entry \<open>default\<close>
  of the family, else 1.0; a family without an entry gives 1.0.
\<close>

theorem C5_antiquity_multiplier_fallback:
  "antiquity_multiplier cfg family architecture =
     spec_multiplier (HARDWARE_WEIGHTS cfg) (or_unknown family) (or_unknown architecture)
   \<and> (HARDWARE_WEIGHTS cfg (or_unknown family) = None \<longrightarrow>
        antiquity_multiplier cfg family architecture = 1)"
  by (simp add: antiquity_multiplier_def spec_multiplier_def dict_get_def Let_def
      split: option.splits)

theorem C5_antiquity_multiplier_fallback_witness:
  "HARDWARE_WEIGHTS sample_config (or_unknown (Some ''powerpc'')) = None
   \<and> antiquity_multiplier sample_config (Some ''powerpc'') (Some ''G4'') = 1"
proof -
  have h: "HARDWARE_WEIGHTS sample_config (or_unknown (Some ''powerpc'')) = None"
    by (simp add: sample_config_def or_unknown_def)
  with C5_antiquity_multiplier_fallback [of sample_config "Some ''powerpc''" "Some ''G4''"]
  show ?thesis by simp
qed

text \<open>The three levels on the sample table, whose only family is written \<open>PowerPC\<close>.\<close>

lemma antiquity_multiplier_levels:
  "antiquity_multiplier sample_config (Some ''PowerPC'') (Some ''G4'') = 5 / 2"
  "antiquity_multiplier sample_config (Some ''PowerPC'') (Some ''G5'') = 3 / 2"
  "antiquity_multiplier sample_config (Some ''PowerPC'') None = 3 / 2"
  "antiquity_multiplier sample_config None None = 1"
  by (simp_all add: antiquity_multiplier_def dict_get_def sample_config_def or_unknown_def)

section \<open>The decorator factory\<close>

text \<open>
  C9. Where the module has no global named \<open>f\<close>, \<open>public_endpoint\<close> raises NameError for
  every argument and returns no wrapper; the wrapper holds the only assignment to
  \<open>_is_admin\<close>, so the decorator sets the flag on no request.
\<close>

theorem C9_public_endpoint_raises_NameError:
  assumes "globals ''f'' = None"
  shows "public_endpoint globals cfg require_auth = Inl NameError
         \<and> (\<forall>wrapper. public_endpoint globals cfg require_auth \<noteq> Inr wrapper)"
  using assms by (simp add: public_endpoint_def)

theorem C9_public_endpoint_raises_NameError_witness:
  "(Map.empty :: string \<rightharpoonup> handler) ''f'' = None
   \<and> public_endpoint Map.empty sample_config False = Inl NameError"
proof -
  have h: "(Map.empty :: string \<rightharpoonup> handler) ''f'' = None"
    by simp
  from C9_public_endpoint_raises_NameError [OF h, of sample_config False] h
  show ?thesis by simp
qed

section \<open>The flag read by the miners handler\<close>

text \<open>
  C10. On a request whose \<open>_is_admin\<close> attribute was never assigned, the miners handler
  does what it does when the flag is false: it runs the first statement only and answers
  for each row with the six public fields, neither \<open>first_attest\<close> nor \<open>entropy_score\<close>
  among them.
\<close>

theorem C10_miners_fail_closed:
  assumes "is_admin_attr req = None"
  shows "api_miners cfg st now req = api_miners cfg st now (req\<lparr>is_admin_attr := Some False\<rparr>)
         \<and> (select_recent st (now - 3600) = Inr rows \<longrightarrow>
              api_miners cfg st now req =
                ([Query (Recent (now - 3600))],
                 Inr (JArr (map (\<lambda>r. JObj (miner_data cfg r)) rows), 200)))
         \<and> keys (miner_data cfg r) =
               [''miner'', ''last_attest'', ''device_family'', ''device_arch'', ''hardware_type'',
                ''antiquity_multiplier'']
         \<and> ''first_attest'' \<notin> set (keys (miner_data cfg r))
         \<and> ''entropy_score'' \<notin> set (keys (miner_data cfg r))"
proof -
  from assms have flag: "getattr_is_admin req = False"
    by (simp add: getattr_is_admin_def)
  have "api_miners cfg st now req = api_miners cfg st now (req\<lparr>is_admin_attr := Some False\<rparr>)"
    using flag by (simp add: api_miners_def getattr_is_admin_def)
  moreover have "select_recent st (now - 3600) = Inr rows \<longrightarrow>
              api_miners cfg st now req =
                ([Query (Recent (now - 3600))],
                 Inr (JArr (map (\<lambda>r. JObj (miner_data cfg r)) rows), 200))"
    using api_miners_anonymous [OF flag] by blast
  ultimately show ?thesis
    by (simp add: keys_miner_data)
qed

theorem C10_miners_fail_closed_witness:
  "is_admin_attr (sample_request\<lparr>x_api_key := Some ''s3cret''\<rparr>) = None
   \<and> select_recent sample_store (1700000100 - 3600) = Inr sample_rows
   \<and> api_miners sample_config sample_store 1700000100 (sample_request\<lparr>x_api_key := Some ''s3cret''\<rparr>) =
        ([Query (Recent (1700000100 - 3600))],
         Inr (JArr (map (\<lambda>r. JObj (miner_data sample_config r)) sample_rows), 200))"
proof -
  let ?req = "sample_request\<lparr>x_api_key := Some ''s3cret''\<rparr>"
  have n: "is_admin_attr ?req = None"
    by (simp add: sample_request_def)
  have r: "select_recent sample_store (1700000100 - 3600) = Inr sample_rows"
    by (simp add: sample_store_def)
  note t = C10_miners_fail_closed
             [OF n, of sample_config sample_store 1700000100 sample_rows "hd sample_rows"]
  from t n r show ?thesis by blast
qed

section \<open>The first attestation\<close>

lemma first_attest_failed:
  "select_first_ts st m = Inl e \<or> select_first_ts st m = Inr None \<Longrightarrow> first_attest st m = JNull"
  by (auto simp: first_attest_def)

lemma first_attest_cong:
  "select_first_ts st' m = select_first_ts st m \<Longrightarrow> first_attest st' m = first_attest st m"
  by (simp add: first_attest_def)

lemma getitem_first_attest:
  "getitem (miner_data cfg r @ restricted_fields st r) ''first_attest'' = Some (first_attest st (miner r))"
  by (simp add: getitem_def miner_data_def restricted_fields_def)

lemma keys_admin_entry:
  "keys (miner_data cfg r @ restricted_fields st r) =
     [''miner'', ''last_attest'', ''device_family'', ''device_arch'', ''hardware_type'',
      ''antiquity_multiplier'', ''first_attest'', ''entropy_score'']"
  by (simp add: keys_def miner_data_def restricted_fields_def)


lemma map_of_append_other:
  "k \<noteq> a \<Longrightarrow> map_of (xs @ (a, v) # ys) k = map_of (xs @ (a, v') # ys) k"
  by (induction xs) auto

lemma getitem_other:
  "k \<noteq> ''first_attest'' \<Longrightarrow>
   getitem (miner_data cfg r @ restricted_fields st' r) k
     = getitem (miner_data cfg r @ restricted_fields st r) k"
  unfolding getitem_def restricted_fields_def by (rule map_of_append_other)


text \<open>
  C6. For an authenticated request over any rows: when the lookup of the first attestation
  of a miner raises or fetches no row, the request still answers 200, the \<open>first_attest\<close>
  of that miner's entries is null, and against any store that differs only in the answer of
  that lookup, those entries have the same keys and the same value under every other key,
  and the entries of all other miners are the same.
\<close>

theorem C6_first_attest_failure_is_local:
  assumes "is_admin_attr req = Some True"
    and "select_recent st (now - 3600) = Inr rows"
    and "select_first_ts st m = Inl e \<or> select_first_ts st m = Inr None"
    and "select_recent st' = select_recent st"
    and "\<forall>m'. m' \<noteq> m \<longrightarrow> select_first_ts st' m' = select_first_ts st m'"
  shows "\<exists>ds ds'.
           snd (api_miners cfg st now req) = Inr (JArr (map JObj ds), 200)
         \<and> snd (api_miners cfg st' now req) = Inr (JArr (map JObj ds'), 200)
         \<and> length ds = length rows \<and> length ds' = length rows
         \<and> (\<forall>i < length rows.
                (miner (rows ! i) = m \<longrightarrow>
                   getitem (ds ! i) ''first_attest'' = Some JNull
                   \<and> keys (ds' ! i) = keys (ds ! i)
                   \<and> (\<forall>k. k \<noteq> ''first_attest'' \<longrightarrow> getitem (ds' ! i) k = getitem (ds ! i) k))
              \<and> (miner (rows ! i) \<noteq> m \<longrightarrow> ds' ! i = ds ! i))"
proof -
  define ds where "ds = map (\<lambda>r. miner_data cfg r @ restricted_fields st r) rows"
  define ds' where "ds' = map (\<lambda>r. miner_data cfg r @ restricted_fields st' r) rows"
  from assms(1) have flag: "getattr_is_admin req = True"
    by (simp add: getattr_is_admin_def)
  from assms(2,4) have rows': "select_recent st' (now - 3600) = Inr rows"
    by simp
  have a: "snd (api_miners cfg st now req) = Inr (JArr (map JObj ds), 200)"
    unfolding ds_def using api_miners_admin [OF flag assms(2)] by (simp add: comp_def)
  have b: "snd (api_miners cfg st' now req) = Inr (JArr (map JObj ds'), 200)"
    unfolding ds'_def using api_miners_admin [OF flag rows'] by (simp add: comp_def)
  have l: "length ds = length rows" "length ds' = length rows"
    by (simp_all add: ds_def ds'_def)
  have nth: "ds ! i = miner_data cfg (rows ! i) @ restricted_fields st (rows ! i)"
    "ds' ! i = miner_data cfg (rows ! i) @ restricted_fields st' (rows ! i)"
    if "i < length rows" for i
    using that by (simp_all add: ds_def ds'_def)
  have null: "first_attest st m = JNull"
    by (rule first_attest_failed [OF assms(3)])
  have c: "getitem (ds ! i) ''first_attest'' = Some JNull
             \<and> keys (ds' ! i) = keys (ds ! i)
             \<and> (\<forall>k. k \<noteq> ''first_attest'' \<longrightarrow> getitem (ds' ! i) k = getitem (ds ! i) k)"
    if "i < length rows" and "miner (rows ! i) = m" for i
  proof (intro conjI allI impI)
    show "getitem (ds ! i) ''first_attest'' = Some JNull"
      unfolding nth(1) [OF that(1)] getitem_first_attest that(2) null ..
    show "keys (ds' ! i) = keys (ds ! i)"
      unfolding nth [OF that(1)] keys_admin_entry ..
    show "getitem (ds' ! i) k = getitem (ds ! i) k" if "k \<noteq> ''first_attest''" for k
      unfolding nth [OF \<open>i < length rows\<close>] by (rule getitem_other [OF that])
  qed
  have d: "ds' ! i = ds ! i" if "i < length rows" and "miner (rows ! i) \<noteq> m" for i
  proof -
    from assms(5) that(2)
    have "select_first_ts st' (miner (rows ! i)) = select_first_ts st (miner (rows ! i))"
      by blast
    then have "first_attest st' (miner (rows ! i)) = first_attest st (miner (rows ! i))"
      by (rule first_attest_cong)
    then have "restricted_fields st' (rows ! i) = restricted_fields st (rows ! i)"
      by (simp add: restricted_fields_def)
    then show ?thesis
      unfolding nth [OF that(1)] by (rule arg_cong)
  qed
  from c d have "\<forall>i < length rows.
                (miner (rows ! i) = m \<longrightarrow>
                   getitem (ds ! i) ''first_attest'' = Some JNull
                   \<and> keys (ds' ! i) = keys (ds ! i)
                   \<and> (\<forall>k. k \<noteq> ''first_attest'' \<longrightarrow> getitem (ds' ! i) k = getitem (ds ! i) k))
              \<and> (miner (rows ! i) \<noteq> m \<longrightarrow> ds' ! i = ds ! i)"
    by blast
  with a b l show ?thesis
    by blast
qed


theorem C6_first_attest_failure_is_local_witness:
  "is_admin_attr (sample_request\<lparr>is_admin_attr := Some True\<rparr>) = Some True
   \<and> select_first_ts sample_store ''bob'' = Inl DatabaseError
   \<and> select_first_ts sample_store_bob_known ''bob'' = Inr (Some (Some 1650000000))
   \<and> (\<exists>ds ds'.
         snd (api_miners sample_config sample_store 1700000100
                (sample_request\<lparr>is_admin_attr := Some True\<rparr>)) = Inr (JArr (map JObj ds), 200)
       \<and> snd (api_miners sample_config sample_store_bob_known 1700000100
                (sample_request\<lparr>is_admin_attr := Some True\<rparr>)) = Inr (JArr (map JObj ds'), 200)
       \<and> getitem (ds ! 1) ''first_attest'' = Some JNull
       \<and> ds' ! 0 = ds ! 0)"
proof -
  let ?req = "sample_request\<lparr>is_admin_attr := Some True\<rparr>"
  have f: "is_admin_attr ?req = Some True"
    by simp
  have r: "select_recent sample_store (1700000100 - 3600) = Inr sample_rows"
    by (simp add: sample_store_def)
  have b: "select_first_ts sample_store ''bob'' = Inl DatabaseError"
    by (simp add: sample_store_def)
  have b': "select_first_ts sample_store_bob_known ''bob'' = Inr (Some (Some 1650000000))"
    by (simp add: sample_store_bob_known_def)
  have s: "select_recent sample_store_bob_known = select_recent sample_store"
    by (simp add: sample_store_bob_known_def)
  have o: "\<forall>m'. m' \<noteq> ''bob'' \<longrightarrow>
             select_first_ts sample_store_bob_known m' = select_first_ts sample_store m'"
    by (simp add: sample_store_bob_known_def sample_store_def)
  have l: "length sample_rows = 2" "miner (sample_rows ! 1) = ''bob''" "miner (sample_rows ! 0) = ''alice''"
    by (simp_all add: sample_rows_def)
  from C6_first_attest_failure_is_local [OF f r disjI1 [OF b] s o, of sample_config]
  obtain ds ds' where
    "snd (api_miners sample_config sample_store 1700000100 ?req) = Inr (JArr (map JObj ds), 200)"
    "snd (api_miners sample_config sample_store_bob_known 1700000100 ?req) = Inr (JArr (map JObj ds'), 200)"
    and p: "\<forall>i < length sample_rows.
                (miner (sample_rows ! i) = ''bob'' \<longrightarrow>
                   getitem (ds ! i) ''first_attest'' = Some JNull
                   \<and> keys (ds' ! i) = keys (ds ! i)
                   \<and> (\<forall>k. k \<noteq> ''first_attest'' \<longrightarrow> getitem (ds' ! i) k = getitem (ds ! i) k))
              \<and> (miner (sample_rows ! i) \<noteq> ''bob'' \<longrightarrow> ds' ! i = ds ! i)"
    by blast
  moreover from p [rule_format, of 1] l have "getitem (ds ! 1) ''first_attest'' = Some JNull"
    by simp
  moreover from p [rule_format, of 0] l have "ds' ! 0 = ds ! 0"
    by simp
  ultimately show ?thesis
    using f b b' by blast
qed

end
